theory Spec2Isabelle
  imports Main "HOL-Library.Sublist"
begin

section \<open>Attribute values and their formatting\<close>

text \<open>
  The values an attribute of a component can hold. The declared fields are typed
  (\<open>class_name: Optional[str]\<close>, \<open>level: int\<close>); the extra attributes
  (\<open>extra="allow"\<close>) are untyped in the source and are modelled over the scalar
  Python values \<open>None\<close>, \<open>str\<close>, \<open>int\<close> and \<open>bool\<close>.
\<close>

datatype pyval = PNone | PStr string | PInt int | PBool bool

text \<open>Python's \<open>str\<close> on an integer: decimal digits, a leading minus sign below zero.\<close>

fun str_nat :: "nat \<Rightarrow> string" where
  "str_nat n =
     (if n < 10 then [''0123456789'' ! n]
      else str_nat (n div 10) @ [''0123456789'' ! (n mod 10)])"

declare str_nat.simps [simp del]

definition str_int :: "int \<Rightarrow> string" where
  "str_int i = (if i < 0 then ''-'' @ str_nat (nat (- i)) else str_nat (nat i))"

text \<open>What an f-string writes for \<open>{v}\<close>.\<close>

fun pystr :: "pyval \<Rightarrow> string" where
  "pystr PNone = ''None''"
| "pystr (PStr s) = s"
| "pystr (PInt i) = str_int i"
| "pystr (PBool b) = (if b then ''True'' else ''False'')"

text \<open>\<open>sep.join(xs)\<close>.\<close>

fun str_join :: "string \<Rightarrow> string list \<Rightarrow> string" where
  "str_join sep [] = []"
| "str_join sep [x] = x"
| "str_join sep (x # y # ys) = x @ sep @ str_join sep (y # ys)"

section \<open>The component tree\<close>

text \<open>
  The three model classes of \<open>components/base.py\<close> and \<open>components/typography.py\<close>,
  one constructor per class, with the fields in declaration order: \<open>tag\<close>,
  \<open>children\<close>, \<open>class_name\<close>, then \<open>content\<close> (\<open>Text\<close>) and \<open>level\<close>
  (\<open>Heading\<close>). The last argument is the dictionary of extra attributes in insertion
  order; being a dictionary, its keys are distinct, and a keyword that names a declared
  field (or the alias \<open>class\<close>) is stored in that field and never among the extras.
\<close>

datatype component =
    Component (tag: string) (children: "component list") (class_name: "string option")
      (extra: "(string \<times> pyval) list")
  | Text (tag: string) (children: "component list") (class_name: "string option")
      (content: string) (extra: "(string \<times> pyval) list")
  | Heading (tag: string) (children: "component list") (class_name: "string option")
      (content: string) (level: int) (extra: "(string \<times> pyval) list")

text \<open>
  The declared fields other than \<open>children\<close>, as (name, alias, value). Only
  \<open>class_name\<close> has an alias. Both calls of \<open>model_dump\<close> in the source exclude
  \<open>children\<close>, so its nested dump is left out here.
\<close>

definition opt_str :: "string option \<Rightarrow> pyval" where
  "opt_str c = (case c of None \<Rightarrow> PNone | Some s \<Rightarrow> PStr s)"

fun model_fields :: "component \<Rightarrow> (string \<times> string \<times> pyval) list" where
  "model_fields (Component t cs cn ex) =
     [(''tag'', ''tag'', PStr t), (''class_name'', ''class'', opt_str cn)]"
| "model_fields (Text t cs cn c ex) =
     [(''tag'', ''tag'', PStr t), (''class_name'', ''class'', opt_str cn),
      (''content'', ''content'', PStr c)]"
| "model_fields (Heading t cs cn c l ex) =
     [(''tag'', ''tag'', PStr t), (''class_name'', ''class'', opt_str cn),
      (''content'', ''content'', PStr c), (''level'', ''level'', PInt l)]"

text \<open>
  \<open>model_dump(exclude=..., by_alias=...)\<close>: the declared fields that are not excluded,
  under their alias when \<open>by_alias\<close> is set and under their name otherwise, followed by
  the extra attributes.
\<close>

definition model_dump :: "string list \<Rightarrow> bool \<Rightarrow> component \<Rightarrow> (string \<times> pyval) list" where
  "model_dump exclude by_alias n =
     map (\<lambda>(k, a, v). (if by_alias then a else k, v))
       (filter (\<lambda>(k, a, v). k \<notin> set exclude) (model_fields n))
     @ extra n"

section \<open>Rendering\<close>

text \<open>One \<open>k="v"\<close> token of the attribute list.\<close>

definition fmt_prop :: "string \<times> pyval \<Rightarrow> string" where
  \<open>fmt_prop kv = fst kv @ ''="'' @ pystr (snd kv) @ ''"''\<close>

text \<open>The list comprehension of both \<open>render\<close> methods: the entries that are not \<open>None\<close>.\<close>

definition prop_tokens :: "(string \<times> pyval) list \<Rightarrow> string list" where
  "prop_tokens d = map fmt_prop (filter (\<lambda>kv. snd kv \<noteq> PNone) d)"

definition props_of :: "(string \<times> pyval) list \<Rightarrow> string" where
  "props_of d = str_join '' '' (prop_tokens d)"

text \<open>
  \<open>Component.render\<close> dumps by alias and recurses into the children; \<open>Text.render\<close>,
  which \<open>Heading\<close> inherits, dumps by field name, also excludes \<open>content\<close>, and writes
  the content between the tags.
\<close>

fun render :: "component \<Rightarrow> string" where
  "render (Component t cs cn ex) =
     (let props_dict = model_dump [''children'', ''tag''] True (Component t cs cn ex);
          props = props_of props_dict;
          children_html = concat (map render cs)
      in ''<'' @ t @ '' '' @ props @ ''>'' @ children_html @ ''</'' @ t @ ''>'')"
| "render (Text t cs cn c ex) =
     (let props = props_of (model_dump [''children'', ''tag'', ''content''] False (Text t cs cn c ex))
      in ''<'' @ t @ '' '' @ props @ ''>'' @ c @ ''</'' @ t @ ''>'')"
| "render (Heading t cs cn c l ex) =
     (let props = props_of (model_dump [''children'', ''tag'', ''content''] False (Heading t cs cn c l ex))
      in ''<'' @ t @ '' '' @ props @ ''>'' @ c @ ''</'' @ t @ ''>'')"

text \<open>The dictionary that the \<open>render\<close> method of a node's class formats.\<close>

fun props_dict :: "component \<Rightarrow> (string \<times> pyval) list" where
  "props_dict (Component t cs cn ex) =
     model_dump [''children'', ''tag''] True (Component t cs cn ex)"
| "props_dict (Text t cs cn c ex) =
     model_dump [''children'', ''tag'', ''content''] False (Text t cs cn c ex)"
| "props_dict (Heading t cs cn c l ex) =
     model_dump [''children'', ''tag'', ''content''] False (Heading t cs cn c l ex)"


text \<open>
  The same methods with the depth of the call stack bounded: \<open>None\<close> when a call would
  exceed the bound. \<open>Text.render\<close> calls no other \<open>render\<close>. The height of a tree
  is the depth its rendering needs.
\<close>

fun render_depth :: "nat \<Rightarrow> component \<Rightarrow> string option" where
  "render_depth 0 n = None"
| "render_depth (Suc k) (Component t cs cn ex) =
     (case those (map (render_depth k) cs) of
        None \<Rightarrow> None
      | Some rs \<Rightarrow>
          Some (''<'' @ t @ '' ''
            @ props_of (model_dump [''children'', ''tag''] True (Component t cs cn ex))
            @ ''>'' @ concat rs @ ''</'' @ t @ ''>''))"
| "render_depth (Suc k) n = Some (render n)"

fun height :: "component \<Rightarrow> nat" where
  "height (Component t cs cn ex) = Suc (foldr max (map height cs) 0)"
| "height (Text t cs cn c ex) = 1"
| "height (Heading t cs cn c l ex) = 1"

section \<open>Construction\<close>

text \<open>
  The keyword arguments of a constructor call: \<open>tag=\<close>, \<open>children=\<close> and
  \<open>class_name=\<close> when given, and the remaining keywords in call order. A call in
  Python cannot repeat a keyword, so the remaining keywords are distinct and none of
  them names a parameter or a declared field of the class being built.
\<close>

record kwargs =
  kw_tag :: "string option"
  kw_children :: "component list option"
  kw_class_name :: "string option"
  kw_extra :: "(string \<times> pyval) list"

definition no_kwargs :: kwargs where
  "no_kwargs = \<lparr>kw_tag = None, kw_children = None, kw_class_name = None, kw_extra = []\<rparr>"

datatype error = TypeError

text \<open>\<open>Component(**kw)\<close>: the defaults are \<open>tag = "div"\<close>, no children, no class.\<close>

definition Component_init :: "kwargs \<Rightarrow> component" where
  "Component_init kw =
     Component (case kw_tag kw of None \<Rightarrow> ''div'' | Some t \<Rightarrow> t)
       (case kw_children kw of None \<Rightarrow> [] | Some cs \<Rightarrow> cs)
       (kw_class_name kw) (kw_extra kw)"

text \<open>
  \<open>Text.__init__(self, content, **kwargs)\<close>: \<open>content\<close> has no default, so a call
  that omits it (\<open>None\<close> below) raises \<open>TypeError\<close>. The default tag is \<open>span\<close>.
\<close>

definition Text_init :: "string option \<Rightarrow> kwargs \<Rightarrow> error + component" where
  "Text_init content_arg kw =
     (case content_arg of
        None \<Rightarrow> Inl TypeError
      | Some c \<Rightarrow>
          Inr (Text (case kw_tag kw of None \<Rightarrow> ''span'' | Some t \<Rightarrow> t)
                 (case kw_children kw of None \<Rightarrow> [] | Some cs \<Rightarrow> cs)
                 (kw_class_name kw) c (kw_extra kw)))"

text \<open>
  \<open>Heading.__init__(self, content, level=1, **kwargs)\<close> calls
  \<open>super().__init__(content=content, tag=f"h{level}", **kwargs)\<close>: a \<open>tag\<close> among
  \<open>kwargs\<close> is a second value for the same keyword, which raises \<open>TypeError\<close>;
  \<open>level\<close> is not passed on, so the field \<open>level\<close> keeps its default 1.
\<close>

definition Heading_init :: "string option \<Rightarrow> int option \<Rightarrow> kwargs \<Rightarrow> error + component" where
  "Heading_init content_arg level_arg kw =
     (case content_arg of
        None \<Rightarrow> Inl TypeError
      | Some c \<Rightarrow>
          (let level = (case level_arg of None \<Rightarrow> 1 | Some l \<Rightarrow> l) in
           if kw_tag kw \<noteq> None then Inl TypeError
           else Inr (Heading (''h'' @ str_int level)
                       (case kw_children kw of None \<Rightarrow> [] | Some cs \<Rightarrow> cs)
                       (kw_class_name kw) c 1 (kw_extra kw))))"

text \<open>The factory functions of \<open>ihjs/__init__.py\<close>.\<close>

definition text_fn :: "string option \<Rightarrow> kwargs \<Rightarrow> error + component" where
  "text_fn content_arg kw =
     (case content_arg of None \<Rightarrow> Inl TypeError | Some c \<Rightarrow> Text_init (Some c) kw)"

definition heading :: "string option \<Rightarrow> int option \<Rightarrow> kwargs \<Rightarrow> error + component" where
  "heading content_arg level_arg kw =
     (case content_arg of
        None \<Rightarrow> Inl TypeError
      | Some c \<Rightarrow> Heading_init (Some c) (Some (case level_arg of None \<Rightarrow> 1 | Some l \<Rightarrow> l)) kw)"

definition div_fn :: "kwargs \<Rightarrow> error + component" where
  "div_fn kw =
     (if kw_tag kw \<noteq> None then Inl TypeError
      else Inr (Component_init (kw\<lparr>kw_tag := Some ''div''\<rparr>)))"

section \<open>What the two dumps hold\<close>

lemma dump_Component:
  "model_dump [''children'', ''tag''] True (Component t cs cn ex) = (''class'', opt_str cn) # ex"
  by (simp add: model_dump_def)


lemma dump_Heading:
  "model_dump [''children'', ''tag'', ''content''] False (Heading t cs cn c l ex)
     = (''class_name'', opt_str cn) # (''level'', PInt l) # ex"
  by (simp add: model_dump_def)

lemma str_int_digit: "str_int 1 = ''1''" "str_int 3 = ''3''"
  by (simp_all add: str_int_def str_nat.simps)

section \<open>Attribute aliasing\<close>

text \<open>
  C1 at \<open>Text(content="hi", class_name="x")\<close>: \<open>Text.render\<close> dumps without
  \<open>by_alias\<close>, so the attribute is written under the field name \<open>class_name\<close> and the
  output is \<open><span class_name="x">hi</span>\<close>, while \<open>Component.render\<close> on the
  same keyword writes \<open>class="x"\<close>.
\<close>

theorem text_render_class_name:
  \<open>Text_init (Some ''hi'') (no_kwargs\<lparr>kw_class_name := Some ''x''\<rparr>)
       = Inr (Text ''span'' [] (Some ''x'') ''hi'' [])
   \<and> render (Text ''span'' [] (Some ''x'') ''hi'' []) = ''<span class_name="x">hi</span>''
   \<and> render (Component_init (no_kwargs\<lparr>kw_class_name := Some ''x''\<rparr>))
       = ''<div class="x"></div>''\<close>
  by (simp add: Text_init_def Component_init_def no_kwargs_def model_dump_def props_of_def
      prop_tokens_def fmt_prop_def opt_str_def)

section \<open>The end-to-end example\<close>

text \<open>
  The example of the specification does not render to the string the specification gives:
  the output differs from \<open><div class="a"><span>hello</span></div>\<close>.
\<close>

theorem render_example_counterexample:
  \<open>render (Component ''div'' [Text ''span'' [] None ''hello'' []] (Some ''a'') [])
     \<noteq> ''<div class="a"><span>hello</span></div>''\<close>
  by (simp add: model_dump_def props_of_def prop_tokens_def fmt_prop_def opt_str_def)

text \<open>
  C2, as the code behaves: \<open>Component(tag="div", class_name="a",
  children=[Text(content="hello")])\<close> is the tree below and renders
  \<open><div class="a"><span >hello</span></div>\<close>; the \<open>span\<close> has no attribute, and the
  format string still writes the space after the tag name.
\<close>

theorem render_example:
  \<open>Text_init (Some ''hello'') no_kwargs = Inr (Text ''span'' [] None ''hello'' [])
   \<and> Component_init \<lparr>kw_tag = Some ''div'',
         kw_children = Some [Text ''span'' [] None ''hello'' []],
         kw_class_name = Some ''a'', kw_extra = []\<rparr>
       = Component ''div'' [Text ''span'' [] None ''hello'' []] (Some ''a'') []
   \<and> render (Component ''div'' [Text ''span'' [] None ''hello'' []] (Some ''a'') [])
       = ''<div class="a"><span >hello</span></div>''\<close>
  by (simp add: Text_init_def Component_init_def no_kwargs_def model_dump_def props_of_def
      prop_tokens_def fmt_prop_def opt_str_def)

section \<open>Children in order\<close>

text \<open>
  \<open>Component(children=[A, B])\<close> with two empty \<open>div\<close>s as children does not render to
  \<open>"<div>" + A.render() + B.render() + "</div>"\<close>: the opening tag is \<open><div >\<close>.
\<close>

theorem render_children_counterexample:
  \<open>render (Component_init (no_kwargs\<lparr>kw_children :=
       Some [Component ''div'' [] None [], Component ''div'' [] None []]\<rparr>))
   \<noteq> ''<div>'' @ render (Component ''div'' [] None [])
         @ render (Component ''div'' [] None []) @ ''</div>''\<close>
  by (simp add: Component_init_def no_kwargs_def model_dump_def props_of_def
      prop_tokens_def fmt_prop_def opt_str_def)

text \<open>
  C3, as the code behaves: a \<open>Component\<close> with the children \<open>[A, B]\<close> renders the opening
  tag (the tag name, a space, the attributes), then \<open>A.render()\<close>, then \<open>B.render()\<close>
  with nothing between or around them, then the closing tag; for
  \<open>Component(children=[A, B])\<close> that is \<open>"<div >" + A.render() + B.render() + "</div>"\<close>.
\<close>

theorem render_children_in_order:
  \<open>render (Component t [A, B] cn ex)
       = ''<'' @ t @ '' '' @ props_of ((''class'', opt_str cn) # ex) @ ''>''
         @ render A @ render B @ ''</'' @ t @ ''>''
   \<and> render (Component_init (no_kwargs\<lparr>kw_children := Some [A, B]\<rparr>))
       = ''<div >'' @ render A @ render B @ ''</div>''\<close>
  by (simp add: dump_Component Component_init_def no_kwargs_def props_of_def
      prop_tokens_def opt_str_def)

section \<open>Text ignores its children\<close>

text \<open>
  \<open>Text(content="hi", children=[c])\<close> with \<open>c = Text(content="hi")\<close> renders
  \<open><span >hi</span>\<close>, which is the very string \<open>c.render()\<close> returns: the output
  does contain the child's output.
\<close>

theorem text_children_counterexample:
  \<open>Text_init (Some ''hi'') (no_kwargs\<lparr>kw_children := Some [Text ''span'' [] None ''hi'' []]\<rparr>)
       = Inr (Text ''span'' [Text ''span'' [] None ''hi'' []] None ''hi'' [])
   \<and> sublist (render (Text ''span'' [] None ''hi'' []))
         (render (Text ''span'' [Text ''span'' [] None ''hi'' []] None ''hi'' []))\<close>
  by (simp add: Text_init_def no_kwargs_def model_dump_def)

text \<open>
  C4, as the code behaves: the output of \<open>Text.render\<close> (and of \<open>Heading\<close>, which
  inherits it) does not depend on \<open>children\<close>, it is the output of the same node without
  children, and it contains \<open>content\<close> verbatim.
\<close>

theorem text_render_ignores_children:
  "render (Text t cs cn c ex) = render (Text t [] cn c ex)
   \<and> sublist c (render (Text t cs cn c ex))
   \<and> render (Heading t cs cn c l ex) = render (Heading t [] cn c l ex)
   \<and> sublist c (render (Heading t cs cn c l ex))"
proof -
  have "sublist c (p @ c @ s)" for p s :: string
    unfolding sublist_def by blast
  from this [of "''<'' @ t @ '' '' @ q @ ''>''" "''</'' @ t @ ''>''" for q]
  show ?thesis
    by (simp add: model_dump_def)
qed

section \<open>Unset attributes\<close>









section \<open>Heading\<close>

lemma render_Heading:
  "render (Heading t cs cn c l ex)
     = ''<'' @ t @ '' '' @ props_of ((''class_name'', opt_str cn) # (''level'', PInt l) # ex)
       @ ''>'' @ c @ ''</'' @ t @ ''>''"
  by (simp add: dump_Heading)

lemma render_Heading_ends:
  "prefix (''<'' @ t) (render (Heading t cs cn c l ex))"
  "suffix (''</'' @ t @ ''>'') (render (Heading t cs cn c l ex))"
proof -
  show "prefix (''<'' @ t) (render (Heading t cs cn c l ex))"
    unfolding render_Heading prefix_def by simp
  have "render (Heading t cs cn c l ex)
      = (''<'' @ t @ '' '' @ props_of ((''class_name'', opt_str cn) # (''level'', PInt l) # ex)
          @ ''>'' @ c) @ (''</'' @ t @ ''>'')"
    unfolding render_Heading by simp
  then show "suffix (''</'' @ t @ ''>'') (render (Heading t cs cn c l ex))"
    unfolding suffix_def by blast
qed

text \<open>
  \<open>Heading(content="x", level=3, tag="p")\<close> builds no node: the explicit \<open>tag\<close> meets
  the \<open>tag=f"h{level}"\<close> of \<open>Heading.__init__\<close> in one call and raises \<open>TypeError\<close>.
\<close>

theorem heading_explicit_tag_counterexample:
  "Heading_init (Some ''x'') (Some 3) (no_kwargs\<lparr>kw_tag := Some ''p''\<rparr>) = Inl TypeError"
  by (simp add: Heading_init_def no_kwargs_def)

text \<open>
  C6, as the code behaves: a \<open>Heading\<close> is built exactly when no \<open>tag\<close> is passed (an
  explicit \<open>tag\<close> is an error at construction); its tag is then \<open>h{level}\<close>, with
  \<open>level\<close> 1 when omitted, and its rendering begins with \<open><h{level}\<close> and ends with
  \<open></h{level}>\<close>. The factory \<open>heading\<close> does the same.
\<close>

theorem heading_tag_forced:
  "(kw_tag kw \<noteq> None \<longrightarrow> Heading_init (Some c) lv kw = Inl TypeError)
   \<and> (kw_tag kw = None \<longrightarrow>
        (\<exists>n. Heading_init (Some c) lv kw = Inr n
           \<and> tag n = ''h'' @ str_int (case lv of None \<Rightarrow> 1 | Some l \<Rightarrow> l)
           \<and> prefix (''<h'' @ str_int (case lv of None \<Rightarrow> 1 | Some l \<Rightarrow> l)) (render n)
           \<and> suffix (''</h'' @ str_int (case lv of None \<Rightarrow> 1 | Some l \<Rightarrow> l) @ ''>'') (render n)))
   \<and> heading (Some c) lv kw = Heading_init (Some c) lv kw"
proof -
  let ?l = "case lv of None \<Rightarrow> 1 | Some l \<Rightarrow> l"
  have "heading (Some c) lv kw = Heading_init (Some c) lv kw"
    by (simp add: heading_def Heading_init_def split: option.splits)
  moreover have "kw_tag kw \<noteq> None \<longrightarrow> Heading_init (Some c) lv kw = Inl TypeError"
    by (simp add: Heading_init_def)
  moreover have "kw_tag kw = None \<longrightarrow>
        (\<exists>n. Heading_init (Some c) lv kw = Inr n \<and> tag n = ''h'' @ str_int ?l
           \<and> prefix (''<h'' @ str_int ?l) (render n)
           \<and> suffix (''</h'' @ str_int ?l @ ''>'') (render n))"
  proof
    assume "kw_tag kw = None"
    then have "Heading_init (Some c) lv kw
        = Inr (Heading (''h'' @ str_int ?l) (case kw_children kw of None \<Rightarrow> [] | Some cs \<Rightarrow> cs)
                 (kw_class_name kw) c 1 (kw_extra kw))"
      by (simp add: Heading_init_def)
    moreover have "prefix (''<'' @ ''h'' @ str_int ?l) (render (Heading (''h'' @ str_int ?l) cs cn c 1 ex))"
      "suffix (''</'' @ (''h'' @ str_int ?l) @ ''>'') (render (Heading (''h'' @ str_int ?l) cs cn c 1 ex))"
      for cs cn ex
      by (rule render_Heading_ends)+
    ultimately show "\<exists>n. Heading_init (Some c) lv kw = Inr n \<and> tag n = ''h'' @ str_int ?l
           \<and> prefix (''<h'' @ str_int ?l) (render n)
           \<and> suffix (''</h'' @ str_int ?l @ ''>'') (render n)"
      by simp
  qed
  ultimately show ?thesis by blast
qed

theorem heading_tag_forced_witness:
  "kw_tag no_kwargs = None
   \<and> (\<exists>n. Heading_init (Some ''x'') (Some 3) no_kwargs = Inr n \<and> tag n = ''h3''
         \<and> prefix ''<h3'' (render n) \<and> suffix ''</h3>'' (render n))
   \<and> (\<exists>n. Heading_init (Some ''x'') None no_kwargs = Inr n \<and> tag n = ''h1'')
   \<and> Heading_init (Some ''x'') (Some 3) (no_kwargs\<lparr>kw_tag := Some ''h3''\<rparr>) = Inl TypeError"
proof -
  have none: "kw_tag no_kwargs = None"
    by (simp add: no_kwargs_def)
  have some: "kw_tag (no_kwargs\<lparr>kw_tag := Some ''h3''\<rparr>) \<noteq> None"
    by simp
  have a: "\<exists>n. Heading_init (Some ''x'') (Some 3) no_kwargs = Inr n \<and> tag n = ''h3''
         \<and> prefix ''<h3'' (render n) \<and> suffix ''</h3>'' (render n)"
    using heading_tag_forced [of no_kwargs "''x''" "Some 3"] none
    by (simp add: str_int_digit)
  have "\<exists>n. Heading_init (Some ''x'') None no_kwargs = Inr n \<and> tag n = ''h1''
         \<and> prefix ''<h1'' (render n) \<and> suffix ''</h1>'' (render n)"
    using heading_tag_forced [of no_kwargs "''x''" None] none
    by (simp add: str_int_digit)
  then have b: "\<exists>n. Heading_init (Some ''x'') None no_kwargs = Inr n \<and> tag n = ''h1''"
    by blast
  have c: "Heading_init (Some ''x'') (Some 3) (no_kwargs\<lparr>kw_tag := Some ''h3''\<rparr>) = Inl TypeError"
    using heading_tag_forced [of "no_kwargs\<lparr>kw_tag := Some ''h3''\<rparr>" "''x''" "Some 3"] some
    by blast
  from none a b c show ?thesis
    by blast
qed

text \<open>
  C10 at \<open>Heading(content="x", level=3)\<close>: \<open>Heading.__init__\<close> uses \<open>level\<close> for the
  tag only and does not pass it to the initialiser of the model, so the field \<open>level\<close>
  holds its default 1 and the output is \<open><h3 level="1">x</h3>\<close>, with \<open>level="1"\<close> where
  the claim has \<open>level="3"\<close>.
\<close>

theorem heading_render_level:
  \<open>Heading_init (Some ''x'') (Some 3) no_kwargs = Inr (Heading ''h3'' [] None ''x'' 1 [])
   \<and> render (Heading ''h3'' [] None ''x'' 1 []) = ''<h3 level="1">x</h3>''
   \<and> \<not> sublist ''level="3"'' (render (Heading ''h3'' [] None ''x'' 1 []))\<close>
proof -
  have r: \<open>render (Heading ''h3'' [] None ''x'' 1 []) = ''<h3 level="1">x</h3>''\<close>
    by (simp add: model_dump_def props_of_def prop_tokens_def fmt_prop_def opt_str_def
        str_int_digit)
  have \<open>\<not> sublist ''level="3"'' ''<h3 level="1">x</h3>''\<close>
    by (simp add: sublist_Cons_right prefix_Cons)
  with r show ?thesis
    by (simp add: Heading_init_def no_kwargs_def str_int_digit)
qed

section \<open>Rendering returns\<close>

lemma those_map_Some: "those (map (\<lambda>c. Some (f c)) cs) = Some (map f cs)"
  by (induction cs) simp_all

lemma height_le_foldr_max: "c \<in> set cs \<Longrightarrow> height c \<le> foldr max (map height cs) 0"
  by (induction cs) auto

lemma render_depth_enough: "height n \<le> k \<Longrightarrow> render_depth k n = Some (render n)"
proof (induction n arbitrary: k)
  case (Component t cs cn ex)
  from Component.prems obtain j where k: "k = Suc j" and j: "foldr max (map height cs) 0 \<le> j"
    by (cases k) simp_all
  have "render_depth j c = Some (render c)" if "c \<in> set cs" for c
    using Component.IH [OF that] height_le_foldr_max [OF that] j by simp
  then have "map (render_depth j) cs = map (\<lambda>c. Some (render c)) cs"
    by simp
  then have "those (map (render_depth j) cs) = Some (map render cs)"
    by (simp only: those_map_Some)
  then show ?case
    by (simp add: k)
next
  case (Text t cs cn c ex)
  then show ?case by (cases k) simp_all
next
  case (Heading t cs cn c l ex)
  then show ?case by (cases k) simp_all
qed

text \<open>
  C7: \<open>render\<close> returns a string on every tree. With the call stack bounded, a bound of
  the height of the tree, or any larger one, is enough for the same string to come back;
  no branch of either method raises.
\<close>

theorem render_total: "render_depth (height n + d) n = Some (render n)"
  by (rule render_depth_enough) simp

section \<open>The shape of the output\<close>






section \<open>Construction errors\<close>

text \<open>
  C9: a \<open>Text\<close> (or a \<open>Heading\<close>, or a call of the factories \<open>text\<close> and \<open>heading\<close>)
  without \<open>content\<close> fails in the constructor with \<open>TypeError\<close> and builds no node, so
  no tree that reaches \<open>render\<close> lacks a content; with \<open>content\<close> given, the node is
  built with that content and \<open>render\<close> returns on it.
\<close>

theorem missing_content_fails_at_construction:
  "Text_init None kw = Inl TypeError
   \<and> text_fn None kw = Inl TypeError
   \<and> Heading_init None lv kw = Inl TypeError
   \<and> heading None lv kw = Inl TypeError
   \<and> (\<exists>n. Text_init (Some c) kw = Inr n \<and> content n = c
         \<and> render_depth (height n) n = Some (render n))"
  by (simp add: Text_init_def text_fn_def Heading_init_def heading_def render_depth_enough)


end
